theory Spec2Isabelle
  imports Main "HOL-Library.AList_Mapping" "HOL-Library.Multiset"
begin

section \<open>Framework values\<close>

text \<open>
  The plugin framework's \<^verbatim>\<open>types.Int64\<close> and \<^verbatim>\<open>types.String\<close> are tri-state: null, unknown
  or a known value. \<^verbatim>\<open>Equal\<close> holds when both sides have the same state and, if known, the
  same value: that is equality of the datatype. \<^verbatim>\<open>ValueInt64\<close> and \<^verbatim>\<open>ValueString\<close> give the
  zero value for null and unknown. Identities are \<^verbatim>\<open>int64\<close>; the code only compares them
  (\<^verbatim>\<open>==\<close>, \<^verbatim>\<open><\<close>) and never does arithmetic on them, so they are modelled as \<open>int\<close>.
\<close>

datatype tf_Int64 = Int64Null | Int64Unknown | Int64Value int

datatype tf_String = StringNull | StringUnknown | StringValue string

fun ValueInt64 :: "tf_Int64 \<Rightarrow> int" where
  "ValueInt64 (Int64Value v) = v"
| "ValueInt64 Int64Null = 0"
| "ValueInt64 Int64Unknown = 0"

fun ValueString :: "tf_String \<Rightarrow> string" where
  "ValueString (StringValue v) = v"
| "ValueString StringNull = []"
| "ValueString StringUnknown = []"

fun Int64_IsNull :: "tf_Int64 \<Rightarrow> bool" where
  "Int64_IsNull Int64Null = True"
| "Int64_IsNull Int64Unknown = False"
| "Int64_IsNull (Int64Value v) = False"

fun Int64_IsUnknown :: "tf_Int64 \<Rightarrow> bool" where
  "Int64_IsUnknown Int64Unknown = True"
| "Int64_IsUnknown Int64Null = False"
| "Int64_IsUnknown (Int64Value v) = False"

section \<open>The configuration model\<close>

record ProjectEnvironmentSecretModel =
  secret_ID :: tf_Int64
  secret_Name :: tf_String
  secret_Type :: tf_String
  secret_Value :: tf_String

text \<open>
  \<^verbatim>\<open>Secrets\<close> is a \<^verbatim>\<open>types.List\<close> of objects: null, unknown, or a list of elements.
  \<^verbatim>\<open>ElementsAs\<close> copies the elements into a slice; the elements are modelled as known
  objects, for which it succeeds.
\<close>

datatype tf_List = ListNull | ListUnknown | ListValue "ProjectEnvironmentSecretModel list"

fun List_IsNull :: "tf_List \<Rightarrow> bool" where
  "List_IsNull ListNull = True"
| "List_IsNull ListUnknown = False"
| "List_IsNull (ListValue xs) = False"

fun List_IsUnknown :: "tf_List \<Rightarrow> bool" where
  "List_IsUnknown ListUnknown = True"
| "List_IsUnknown ListNull = False"
| "List_IsUnknown (ListValue xs) = False"

fun ElementsAs :: "tf_List \<Rightarrow> ProjectEnvironmentSecretModel list" where
  "ElementsAs (ListValue xs) = xs"
| "ElementsAs ListNull = []"
| "ElementsAs ListUnknown = []"

text \<open>
  \<^verbatim>\<open>Variables\<close> and \<^verbatim>\<open>Environment\<close> are \<^verbatim>\<open>*map[string]string\<close>: \<open>None\<close> is the nil pointer.
\<close>

type_synonym go_map = "(string, string) mapping"

record ProjectEnvironmentModel =
  model_ID :: tf_Int64
  model_ProjectID :: tf_Int64
  model_Name :: tf_String
  model_Variables :: "go_map option"
  model_Environment :: "go_map option"
  model_Secrets :: tf_List

text \<open>
  \<^verbatim>\<open>SecretValue\<close>: the value of the first secret with this name and type, the known empty
  string when there is none or the list is null or unknown.
\<close>

fun SecretValue_loop :: "ProjectEnvironmentSecretModel list \<Rightarrow> string \<Rightarrow> string \<Rightarrow> tf_String" where
  "SecretValue_loop [] name varType = StringValue []"
| "SecretValue_loop (secret # secrets) name varType =
     (if secret_Name secret = StringValue name \<and> secret_Type secret = StringValue varType
      then secret_Value secret
      else SecretValue_loop secrets name varType)"

definition SecretValue :: "ProjectEnvironmentModel \<Rightarrow> string \<Rightarrow> string \<Rightarrow> tf_String" where
  "SecretValue model name varType =
     (if List_IsNull (model_Secrets model) \<or> List_IsUnknown (model_Secrets model)
      then StringValue []
      else SecretValue_loop (ElementsAs (model_Secrets model)) name varType)"

text \<open>
  \<^verbatim>\<open>Secret\<close>: the first secret whose \<^verbatim>\<open>ID\<close> equals the given one, \<open>None\<close> for the nil
  result.
\<close>

fun Secret_loop :: "ProjectEnvironmentSecretModel list \<Rightarrow> tf_Int64 \<Rightarrow> ProjectEnvironmentSecretModel option" where
  "Secret_loop [] i = None"
| "Secret_loop (secret # secrets) i =
     (if secret_ID secret = i then Some secret else Secret_loop secrets i)"

definition Secret :: "ProjectEnvironmentModel \<Rightarrow> tf_Int64 \<Rightarrow> ProjectEnvironmentSecretModel option" where
  "Secret model i =
     (if List_IsNull (model_Secrets model) \<or> List_IsUnknown (model_Secrets model)
      then None
      else Secret_loop (ElementsAs (model_Secrets model)) i)"

section \<open>The request sent to the server\<close>

text \<open>
  \<^verbatim>\<open>models.EnvironmentSecretRequest\<close> and \<^verbatim>\<open>models.EnvironmentRequest\<close> are plain Go structs:
  a field that is never assigned holds its zero value (\<open>0\<close>, the empty string), which is
  how a field is absent from a request.
\<close>

record EnvironmentSecretRequest =
  req_ID :: int
  req_Name :: string
  req_Type :: string
  req_Secret :: string
  req_Operation :: string

record EnvironmentRequest =
  ereq_ProjectID :: int
  ereq_Name :: string
  ereq_ID :: int
  ereq_JSON :: string
  ereq_Env :: string
  ereq_Secrets :: "EnvironmentSecretRequest list"

text \<open>The body of the loop over the desired secrets: the request entry built for one secret.\<close>

definition secretRequest :: "ProjectEnvironmentModel \<Rightarrow> ProjectEnvironmentSecretModel \<Rightarrow> EnvironmentSecretRequest" where
  "secretRequest prev secret =
     (let modelSecret = \<lparr> req_ID = 0,
                           req_Name = ValueString (secret_Name secret),
                           req_Type = ValueString (secret_Type secret),
                           req_Secret = [],
                           req_Operation = [] \<rparr>
      in if Int64_IsUnknown (secret_ID secret) \<or> Int64_IsNull (secret_ID secret)
         then modelSecret \<lparr> req_Operation := ''create'',
                             req_Secret := ValueString (secret_Value secret) \<rparr>
         else
           (let modelSecret = modelSecret \<lparr> req_ID := ValueInt64 (secret_ID secret) \<rparr>
            in case Secret prev (secret_ID secret) of
                 None \<Rightarrow> modelSecret
               | Some prevSecret \<Rightarrow>
                   if secret_Name secret \<noteq> secret_Name prevSecret
                      \<or> secret_Value secret \<noteq> secret_Value prevSecret
                      \<or> secret_Type secret \<noteq> secret_Type prevSecret
                   then
                     (let modelSecret = modelSecret \<lparr> req_Operation := ''update'' \<rparr>;
                          modelSecret =
                            (if secret_Name secret \<noteq> secret_Name prevSecret
                             then modelSecret \<lparr> req_Name := ValueString (secret_Name secret) \<rparr>
                             else modelSecret);
                          modelSecret =
                            (if secret_Value secret \<noteq> secret_Value prevSecret
                             then modelSecret \<lparr> req_Secret := ValueString (secret_Value secret) \<rparr>
                             else modelSecret);
                          modelSecret =
                            (if secret_Type secret \<noteq> secret_Type prevSecret
                             then modelSecret \<lparr> req_Type := ValueString (secret_Type secret) \<rparr>
                             else modelSecret)
                      in modelSecret)
                   else modelSecret))"

text \<open>The first loop appends one entry for every desired secret, whatever its operation.\<close>

fun envSecrets_loop :: "ProjectEnvironmentModel \<Rightarrow> ProjectEnvironmentSecretModel list
    \<Rightarrow> EnvironmentSecretRequest list \<Rightarrow> EnvironmentSecretRequest list" where
  "envSecrets_loop prev [] secrets = secrets"
| "envSecrets_loop prev (secret # rest) secrets =
     envSecrets_loop prev rest (secrets @ [secretRequest prev secret])"

definition deleteRequest :: "ProjectEnvironmentSecretModel \<Rightarrow> EnvironmentSecretRequest" where
  "deleteRequest prevSecret =
     \<lparr> req_ID = ValueInt64 (secret_ID prevSecret),
       req_Name = [],
       req_Type = ValueString (secret_Type prevSecret),
       req_Secret = [],
       req_Operation = ''delete'' \<rparr>"

text \<open>The second loop appends a delete for every previous secret that the desired model lacks.\<close>

fun prevSecrets_loop :: "ProjectEnvironmentModel \<Rightarrow> ProjectEnvironmentSecretModel list
    \<Rightarrow> EnvironmentSecretRequest list \<Rightarrow> EnvironmentSecretRequest list" where
  "prevSecrets_loop env [] secrets = secrets"
| "prevSecrets_loop env (prevSecret # rest) secrets =
     (case Secret env (secret_ID prevSecret) of
        None \<Rightarrow> prevSecrets_loop env rest (secrets @ [deleteRequest prevSecret])
      | Some secret \<Rightarrow> prevSecrets_loop env rest secrets)"

text \<open>
  The secret entries of the request (the part of
  \<^verbatim>\<open>convertProjectEnvironmentModelToEnvironmentRequest\<close> from the declaration of
  \<^verbatim>\<open>secrets\<close> to the end of the second loop): it reads only the two models' secrets.
\<close>

definition requestSecrets ::
    "ProjectEnvironmentModel \<Rightarrow> ProjectEnvironmentModel \<Rightarrow> EnvironmentSecretRequest list" where
  "requestSecrets env prev =
     (let envSecrets =
            (if List_IsNull (model_Secrets env) \<or> List_IsUnknown (model_Secrets env)
             then [] else ElementsAs (model_Secrets env));
          prevSecrets =
            (if List_IsUnknown (model_Secrets prev) \<or> List_IsNull (model_Secrets prev)
             then [] else ElementsAs (model_Secrets prev));
          secrets = envSecrets_loop prev envSecrets []
      in prevSecrets_loop env prevSecrets secrets)"

text \<open>
  \<^verbatim>\<open>json.Marshal\<close> of the standard library is a parameter, \<open>marshal\<close>; on a string map it
  never fails.
\<close>

definition convertProjectEnvironmentModelToEnvironmentRequest ::
    "(go_map \<Rightarrow> string) \<Rightarrow> ProjectEnvironmentModel \<Rightarrow> ProjectEnvironmentModel \<Rightarrow> EnvironmentRequest" where
  "convertProjectEnvironmentModelToEnvironmentRequest marshal env prev =
     \<lparr> ereq_ProjectID = ValueInt64 (model_ProjectID env),
       ereq_Name = ValueString (model_Name env),
       ereq_ID = (if \<not> Int64_IsNull (model_ID env) \<and> \<not> Int64_IsUnknown (model_ID env)
                  then ValueInt64 (model_ID env) else 0),
       ereq_JSON = (case model_Variables env of None \<Rightarrow> ''{}'' | Some m \<Rightarrow> marshal m),
       ereq_Env = (case model_Environment env of None \<Rightarrow> ''{}'' | Some m \<Rightarrow> marshal m),
       ereq_Secrets = requestSecrets env prev \<rparr>"

text \<open>
  The zero model \<^verbatim>\<open>ProjectEnvironmentModel{}\<close>, which \<^verbatim>\<open>Create\<close> and \<^verbatim>\<open>ImportState\<close> pass as
  the previous model: every framework value is null, both map pointers are nil.
\<close>

definition emptyModel :: ProjectEnvironmentModel where
  "emptyModel =
     \<lparr> model_ID = Int64Null, model_ProjectID = Int64Null, model_Name = StringNull,
       model_Variables = None, model_Environment = None, model_Secrets = ListNull \<rparr>"

section \<open>The response read from the server\<close>

text \<open>
  \<^verbatim>\<open>models.Environment\<close> with its \<^verbatim>\<open>[]*models.EnvironmentSecret\<close>; the entries are modelled
  as non-nil pointers, as are the \<^verbatim>\<open>environment\<close> and \<^verbatim>\<open>prev\<close> arguments of the merger
  (every caller passes the address of a value).
\<close>

record EnvironmentSecret =
  es_ID :: int
  es_Name :: string
  es_Type :: string

record Environment =
  env_ID :: int
  env_ProjectID :: int
  env_Name :: string
  env_JSON :: string
  env_Env :: string
  env_Secrets :: "EnvironmentSecret list"

text \<open>
  \<^verbatim>\<open>ByEnvironmentID\<close> orders the response's secrets by \<^verbatim>\<open>a[i].ID < a[j].ID\<close>.
\<close>

definition Less :: "EnvironmentSecret list \<Rightarrow> nat \<Rightarrow> nat \<Rightarrow> bool" where
  "Less a i j = (es_ID (a ! i) < es_ID (a ! j))"

text \<open>
  \<^verbatim>\<open>sort.Sort\<close> of the standard library is a parameter, \<open>sort_Sort\<close>, from the slice to
  the slice as the call leaves it. Its contract, for the slice \<open>a\<close> before and \<open>b\<close> after
  the call: \<open>b\<close> holds the entries of \<open>a\<close>, reordered (the library only swaps them), in
  ascending order as determined by \<^verbatim>\<open>Less\<close>, that is, \<^verbatim>\<open>Less\<close> never holds from a later
  position to an earlier one. The library promises no order among entries that \<^verbatim>\<open>Less\<close>
  does not separate.
\<close>

definition sort_Sort_contract :: "EnvironmentSecret list \<Rightarrow> EnvironmentSecret list \<Rightarrow> bool" where
  "sort_Sort_contract a b =
     (mset b = mset a \<and> (\<forall>j < length b. \<forall>i < j. \<not> Less b j i))"

text \<open>
  \<^verbatim>\<open>json.Unmarshal(data, &p)\<close> of the standard library, for a nil \<^verbatim>\<open>p *map[string]string\<close>,
  has three outcomes: an error; no error with \<open>p\<close> still nil (the document \<^verbatim>\<open>null\<close>
  sets a pointer to nil); no error with \<open>p\<close> pointing to the decoded map. The decoder is a
  parameter, \<open>unmarshal\<close>, from the text to its outcome.
\<close>

datatype unmarshal_result = UnmarshalError | UnmarshalNil | UnmarshalMap go_map

datatype panic = NilPointerDereference

text \<open>
  The two statements that decode one map field (written once for \<^verbatim>\<open>Variables\<close> and once
  for \<^verbatim>\<open>Environment\<close>): an error replaces the field by a pointer to an empty map; then
  \<^verbatim>\<open>len(*field)\<close> dereferences the field, which panics on a nil pointer; an empty map
  with a nil previous field becomes nil.
\<close>

definition unmarshalField :: "unmarshal_result \<Rightarrow> go_map option \<Rightarrow> panic + go_map option" where
  "unmarshalField decoded prevField =
     (let field = (case decoded of
                     UnmarshalError \<Rightarrow> Some Mapping.empty
                   | UnmarshalNil \<Rightarrow> None
                   | UnmarshalMap m \<Rightarrow> Some m)
      in case field of
           None \<Rightarrow> Inl NilPointerDereference
         | Some m \<Rightarrow>
             Inr (if Mapping.is_empty m \<and> prevField = None then None else Some m))"

text \<open>The loop over the sorted secrets of the response: each value comes from \<open>prev\<close>.\<close>

definition modelSecret :: "ProjectEnvironmentModel \<Rightarrow> EnvironmentSecret \<Rightarrow> ProjectEnvironmentSecretModel" where
  "modelSecret prev secret =
     \<lparr> secret_ID = Int64Value (es_ID secret),
       secret_Name = StringValue (es_Name secret),
       secret_Type = StringValue (es_Type secret),
       secret_Value =
         (case Secret prev (Int64Value (es_ID secret)) of
            Some prevSecret \<Rightarrow> secret_Value prevSecret
          | None \<Rightarrow> SecretValue prev (es_Name secret) (es_Type secret)) \<rparr>"

fun responseSecrets_loop :: "ProjectEnvironmentModel \<Rightarrow> EnvironmentSecret list
    \<Rightarrow> ProjectEnvironmentSecretModel list \<Rightarrow> ProjectEnvironmentSecretModel list" where
  "responseSecrets_loop prev [] secrets = secrets"
| "responseSecrets_loop prev (secret # rest) secrets =
     responseSecrets_loop prev rest (secrets @ [modelSecret prev secret])"

text \<open>
  The merged secret list. \<^verbatim>\<open>secrets\<close> starts as a nil slice and stays nil when the response
  has no secret; \<^verbatim>\<open>types.ListValueFrom\<close> turns a nil slice into the null list and any
  other slice into a list of its elements.
\<close>

definition mergedSecrets :: "(EnvironmentSecret list \<Rightarrow> EnvironmentSecret list)
    \<Rightarrow> Environment \<Rightarrow> ProjectEnvironmentModel \<Rightarrow> tf_List" where
  "mergedSecrets sort_Sort environment prev =
     (let secrets = responseSecrets_loop prev (sort_Sort (env_Secrets environment)) []
      in if length secrets = 0
         then (if \<not> List_IsNull (model_Secrets prev) \<and> \<not> List_IsUnknown (model_Secrets prev)
               then ListValue (ElementsAs (model_Secrets prev))
               else ListNull)
         else ListValue secrets)"

definition convertEnvironmentResponseToProjectEnvironmentModel ::
    "(string \<Rightarrow> unmarshal_result) \<Rightarrow> (EnvironmentSecret list \<Rightarrow> EnvironmentSecret list)
      \<Rightarrow> Environment \<Rightarrow> ProjectEnvironmentModel \<Rightarrow> panic + ProjectEnvironmentModel" where
  "convertEnvironmentResponseToProjectEnvironmentModel unmarshal sort_Sort environment prev =
     (case unmarshalField (unmarshal (env_JSON environment)) (model_Variables prev) of
        Inl p \<Rightarrow> Inl p
      | Inr variables \<Rightarrow>
          (case unmarshalField (unmarshal (env_Env environment)) (model_Environment prev) of
             Inl p \<Rightarrow> Inl p
           | Inr env \<Rightarrow>
               Inr \<lparr> model_ID = Int64Value (env_ID environment),
                     model_ProjectID = Int64Value (env_ProjectID environment),
                     model_Name = StringValue (env_Name environment),
                     model_Variables = variables,
                     model_Environment = env,
                     model_Secrets = mergedSecrets sort_Sort environment prev \<rparr>))"

section \<open>The composite identifier parser\<close>

text \<open>
  Modelled from the spec: \<^verbatim>\<open>parseImportFields\<close>, which \<^verbatim>\<open>ImportState\<close> calls with the raw
  identifier and the labels \<^verbatim>\<open>project\<close>, \<^verbatim>\<open>environment\<close>, is not among the sources. The spec's
  parser splits the raw text on \<^verbatim>\<open>/\<close> into one value token per expected label, in order;
  each token must be a non-negative decimal integer; any other input fails with
  \<^verbatim>\<open>MalformedIdentifier\<close>, which names the offending text and the expected pattern (the
  labels joined by \<^verbatim>\<open>/\<close>).
\<close>

datatype error = MalformedIdentifier string string

fun split :: "char \<Rightarrow> string \<Rightarrow> string list" where
  "split sep [] = [[]]"
| "split sep (c # cs) =
     (if c = sep then [] # split sep cs
      else (case split sep cs of [] \<Rightarrow> [[c]] | w # ws \<Rightarrow> (c # w) # ws))"

definition isDigit :: "char \<Rightarrow> bool" where
  "isDigit c = (48 \<le> (of_char c :: nat) \<and> (of_char c :: nat) \<le> 57)"

definition digitValue :: "char \<Rightarrow> nat" where
  "digitValue c = of_char c - 48"

fun parseDigits :: "string \<Rightarrow> nat \<Rightarrow> nat option" where
  "parseDigits [] acc = Some acc"
| "parseDigits (c # cs) acc =
     (if isDigit c then parseDigits cs (10 * acc + digitValue c) else None)"

definition parseValue :: "string \<Rightarrow> nat option" where
  "parseValue token = (if token = [] then None else parseDigits token 0)"

fun expectedPattern :: "string list \<Rightarrow> string" where
  "expectedPattern [] = []"
| "expectedPattern [label] = label"
| "expectedPattern (label # labels) = label @ ''/'' @ expectedPattern labels"

fun parseTokens :: "string list \<Rightarrow> string list \<Rightarrow> string \<Rightarrow> error + (string \<times> nat) list" where
  "parseTokens (label # labels) (token # tokens) pattern =
     (case parseValue token of
        None \<Rightarrow> Inl (MalformedIdentifier token pattern)
      | Some v \<Rightarrow>
          (case parseTokens labels tokens pattern of
             Inl e \<Rightarrow> Inl e
           | Inr result \<Rightarrow> Inr ((label, v) # result)))"
| "parseTokens labels tokens pattern = Inr []"

definition parseImportFields :: "string \<Rightarrow> string list \<Rightarrow> error + (string \<times> nat) list" where
  "parseImportFields raw expectedLabels =
     (let tokens = split (CHR ''/'') raw;
          pattern = expectedPattern expectedLabels
      in if length tokens \<noteq> length expectedLabels
         then Inl (MalformedIdentifier raw pattern)
         else parseTokens expectedLabels tokens pattern)"

section \<open>The secret diff\<close>

subsection \<open>The two loops as list operations\<close>

lemma envSecrets_loop_map:
  "envSecrets_loop prev xs acc = acc @ map (secretRequest prev) xs"
  by (induction xs arbitrary: acc) simp_all

lemma prevSecrets_loop_filter:
  "prevSecrets_loop env ps acc =
     acc @ map deleteRequest (filter (\<lambda>p. Secret env (secret_ID p) = None) ps)"
  by (induction ps arbitrary: acc) (simp_all split: option.splits)

lemma Secret_loop_None_iff: "Secret_loop xs i = None \<longleftrightarrow> i \<notin> secret_ID ` set xs"
  by (induction xs) auto

lemma ElementsAs_null_unknown:
  "(if List_IsNull l \<or> List_IsUnknown l then [] else ElementsAs l) = ElementsAs l"
  "(if List_IsUnknown l \<or> List_IsNull l then [] else ElementsAs l) = ElementsAs l"
  by (cases l; simp)+

lemma Secret_eq_loop: "Secret model i = Secret_loop (ElementsAs (model_Secrets model)) i"
  by (cases "model_Secrets model") (simp_all add: Secret_def)

lemma Secret_None_iff:
  "Secret model i = None \<longleftrightarrow> i \<notin> secret_ID ` set (ElementsAs (model_Secrets model))"
  by (simp add: Secret_eq_loop Secret_loop_None_iff)

lemma requestSecrets_eq:
  "requestSecrets env prev =
     map (secretRequest prev) (ElementsAs (model_Secrets env)) @
     map deleteRequest
       (filter (\<lambda>p. secret_ID p \<notin> secret_ID ` set (ElementsAs (model_Secrets env)))
          (ElementsAs (model_Secrets prev)))"
  by (simp add: requestSecrets_def ElementsAs_null_unknown envSecrets_loop_map
      prevSecrets_loop_filter Secret_None_iff)

lemma secretRequest_not_delete: "req_Operation (secretRequest prev s) \<noteq> ''delete''"
  by (simp add: secretRequest_def Let_def split: option.splits)

lemma secretRequest_create:
  "secret_ID s = Int64Null \<or> secret_ID s = Int64Unknown \<Longrightarrow>
   secretRequest prev s =
     \<lparr> req_ID = 0, req_Name = ValueString (secret_Name s), req_Type = ValueString (secret_Type s),
       req_Secret = ValueString (secret_Value s), req_Operation = ''create'' \<rparr>"
  by (auto simp: secretRequest_def)

lemma secretRequest_not_found:
  "secret_ID s = Int64Value k \<Longrightarrow> Secret prev (Int64Value k) = None \<Longrightarrow>
   secretRequest prev s =
     \<lparr> req_ID = k, req_Name = ValueString (secret_Name s), req_Type = ValueString (secret_Type s),
       req_Secret = [], req_Operation = [] \<rparr>"
  by (simp add: secretRequest_def)

lemma secretRequest_unchanged:
  "secret_ID s = Int64Value k \<Longrightarrow> Secret prev (Int64Value k) = Some p \<Longrightarrow>
   secret_Name s = secret_Name p \<Longrightarrow> secret_Type s = secret_Type p \<Longrightarrow>
   secret_Value s = secret_Value p \<Longrightarrow>
   secretRequest prev s =
     \<lparr> req_ID = k, req_Name = ValueString (secret_Name s), req_Type = ValueString (secret_Type s),
       req_Secret = [], req_Operation = [] \<rparr>"
  by (simp add: secretRequest_def)

lemma secretRequest_update:
  "secret_ID s = Int64Value k \<Longrightarrow> Secret prev (Int64Value k) = Some p \<Longrightarrow>
   secret_Name s \<noteq> secret_Name p \<or> secret_Type s \<noteq> secret_Type p \<or>
   secret_Value s \<noteq> secret_Value p \<Longrightarrow>
   secretRequest prev s =
     \<lparr> req_ID = k, req_Name = ValueString (secret_Name s), req_Type = ValueString (secret_Type s),
       req_Secret = (if secret_Value s \<noteq> secret_Value p then ValueString (secret_Value s) else []),
       req_Operation = ''update'' \<rparr>"
  by (auto simp: secretRequest_def Let_def)

lemma deleteRequest_is_delete: "req_Operation (deleteRequest p) = ''delete''"
  by (simp add: deleteRequest_def)

lemma requestSecrets_nth:
  "i < length (ElementsAs (model_Secrets env)) \<Longrightarrow>
   requestSecrets env prev ! i = secretRequest prev (ElementsAs (model_Secrets env) ! i)"
  by (simp add: requestSecrets_eq nth_append)

lemma requestSecrets_drop:
  "drop (length (ElementsAs (model_Secrets env))) (requestSecrets env prev) =
     map deleteRequest
       (filter (\<lambda>p. secret_ID p \<notin> secret_ID ` set (ElementsAs (model_Secrets env)))
          (ElementsAs (model_Secrets prev)))"
  by (simp add: requestSecrets_eq)

lemma request_Secrets:
  "ereq_Secrets (convertProjectEnvironmentModelToEnvironmentRequest marshal env prev) =
     requestSecrets env prev"
  by (simp add: convertProjectEnvironmentModelToEnvironmentRequest_def)

subsection \<open>Deletes\<close>

text \<open>
  C7. For every previous secret whose identity does not appear among the desired secrets'
  identities, the diff emits exactly one delete, made of the identity, the kind and the
  delete operation, with no name and no value: the entries of the request whose operation
  is \<^verbatim>\<open>delete\<close> are, in order, one per such previous secret, and no other entry is a delete.
  The previous secret \<^verbatim>\<open>{id:9, name:"B", kind:file, value:"y"}\<close>, absent from the desired
  list, gives exactly \<^verbatim>\<open>{id:9, kind:file, operation:delete}\<close>.
\<close>

theorem delete_for_each_missing_previous_secret:
  "filter (\<lambda>r. req_Operation r = ''delete'') (requestSecrets env prev) =
     map (\<lambda>p. \<lparr> req_ID = ValueInt64 (secret_ID p), req_Name = [],
                 req_Type = ValueString (secret_Type p), req_Secret = [],
                 req_Operation = ''delete'' \<rparr>)
       (filter (\<lambda>p. secret_ID p \<notin> secret_ID ` set (ElementsAs (model_Secrets env)))
          (ElementsAs (model_Secrets prev)))
   \<and> requestSecrets (emptyModel \<lparr> model_Secrets := ListValue [] \<rparr>)
        (emptyModel \<lparr> model_Secrets := ListValue
           [\<lparr> secret_ID = Int64Value 9, secret_Name = StringValue ''B'',
              secret_Type = StringValue ''file'', secret_Value = StringValue ''y'' \<rparr>] \<rparr>) =
       [\<lparr> req_ID = 9, req_Name = [], req_Type = ''file'', req_Secret = [],
          req_Operation = ''delete'' \<rparr>]"
proof -
  have no_delete: "filter (\<lambda>r. req_Operation r = ''delete'') (map (secretRequest prev) xs) = []" for xs
    by (induction xs) (simp_all add: secretRequest_not_delete)
  have all_delete: "filter (\<lambda>r. req_Operation r = ''delete'') (map deleteRequest ps) = map deleteRequest ps" for ps
    by (induction ps) (simp_all add: deleteRequest_is_delete)
  have shape: "deleteRequest = (\<lambda>p. \<lparr> req_ID = ValueInt64 (secret_ID p), req_Name = [],
                 req_Type = ValueString (secret_Type p), req_Secret = [],
                 req_Operation = ''delete'' \<rparr>)"
    by (rule ext) (simp add: deleteRequest_def)
  have general: "filter (\<lambda>r. req_Operation r = ''delete'') (requestSecrets env prev) =
     map deleteRequest
       (filter (\<lambda>p. secret_ID p \<notin> secret_ID ` set (ElementsAs (model_Secrets env)))
          (ElementsAs (model_Secrets prev)))"
    by (simp add: requestSecrets_eq no_delete all_delete)
  have example: "requestSecrets (emptyModel \<lparr> model_Secrets := ListValue [] \<rparr>)
        (emptyModel \<lparr> model_Secrets := ListValue
           [\<lparr> secret_ID = Int64Value 9, secret_Name = StringValue ''B'',
              secret_Type = StringValue ''file'', secret_Value = StringValue ''y'' \<rparr>] \<rparr>) =
       [\<lparr> req_ID = 9, req_Name = [], req_Type = ''file'', req_Secret = [],
          req_Operation = ''delete'' \<rparr>]"
    by (simp add: requestSecrets_eq deleteRequest_def)
  from general example show ?thesis unfolding shape by blast
qed


theorem delete_for_each_missing_previous_secret_witness:
  "filter (\<lambda>r. req_Operation r = ''delete'')
     (requestSecrets
        (emptyModel \<lparr> model_Secrets := ListValue
           [\<lparr> secret_ID = Int64Value 1, secret_Name = StringValue ''A'',
              secret_Type = StringValue ''env'', secret_Value = StringValue ''x'' \<rparr>] \<rparr>)
        (emptyModel \<lparr> model_Secrets := ListValue
           [\<lparr> secret_ID = Int64Value 1, secret_Name = StringValue ''A'',
              secret_Type = StringValue ''env'', secret_Value = StringValue ''x'' \<rparr>,
            \<lparr> secret_ID = Int64Value 9, secret_Name = StringValue ''B'',
              secret_Type = StringValue ''file'', secret_Value = StringValue ''y'' \<rparr>] \<rparr>)) =
     [\<lparr> req_ID = 9, req_Name = [], req_Type = ''file'', req_Secret = [],
        req_Operation = ''delete'' \<rparr>]"
  using delete_for_each_missing_previous_secret
    [of "emptyModel \<lparr> model_Secrets := ListValue
           [\<lparr> secret_ID = Int64Value 1, secret_Name = StringValue ''A'',
              secret_Type = StringValue ''env'', secret_Value = StringValue ''x'' \<rparr>] \<rparr>"
        "emptyModel \<lparr> model_Secrets := ListValue
           [\<lparr> secret_ID = Int64Value 1, secret_Name = StringValue ''A'',
              secret_Type = StringValue ''env'', secret_Value = StringValue ''x'' \<rparr>,
            \<lparr> secret_ID = Int64Value 9, secret_Name = StringValue ''B'',
              secret_Type = StringValue ''file'', secret_Value = StringValue ''y'' \<rparr>] \<rparr>"]
  by simp

subsection \<open>Creates\<close>

text \<open>
  The desired secret with identity 7, of which the previous model has no record, is sent
  with its identity, name and type, without operation and without value: it is not a
  create.
\<close>

theorem unknown_identity_not_created_counterexample:
  "requestSecrets
     (emptyModel \<lparr> model_Secrets := ListValue
        [\<lparr> secret_ID = Int64Value 7, secret_Name = StringValue ''A'',
           secret_Type = StringValue ''env'', secret_Value = StringValue ''x'' \<rparr>] \<rparr>)
     (emptyModel \<lparr> model_Secrets := ListValue [] \<rparr>) =
     [\<lparr> req_ID = 7, req_Name = ''A'', req_Type = ''env'', req_Secret = [],
        req_Operation = [] \<rparr>]"
  by (simp add: requestSecrets_eq secretRequest_def Secret_def)

text \<open>
  C3, as the code has it. The request holds one entry per desired secret, in order, and
  every entry after them is a delete. The entry of a desired secret without identity (null
  or unknown) is a create carrying name, kind and value. The entry of a desired secret
  whose identity is not found among the previous secrets carries the identity, the name
  and the kind, with an empty operation and no value.
\<close>

theorem create_only_without_identity:
  assumes "i < length (ElementsAs (model_Secrets env))"
  shows "(secret_ID (ElementsAs (model_Secrets env) ! i) = Int64Null
            \<or> secret_ID (ElementsAs (model_Secrets env) ! i) = Int64Unknown \<longrightarrow>
          requestSecrets env prev ! i =
            \<lparr> req_ID = 0,
              req_Name = ValueString (secret_Name (ElementsAs (model_Secrets env) ! i)),
              req_Type = ValueString (secret_Type (ElementsAs (model_Secrets env) ! i)),
              req_Secret = ValueString (secret_Value (ElementsAs (model_Secrets env) ! i)),
              req_Operation = ''create'' \<rparr>)
       \<and> (\<forall>k. secret_ID (ElementsAs (model_Secrets env) ! i) = Int64Value k \<longrightarrow>
              Int64Value k \<notin> secret_ID ` set (ElementsAs (model_Secrets prev)) \<longrightarrow>
          requestSecrets env prev ! i =
            \<lparr> req_ID = k,
              req_Name = ValueString (secret_Name (ElementsAs (model_Secrets env) ! i)),
              req_Type = ValueString (secret_Type (ElementsAs (model_Secrets env) ! i)),
              req_Secret = [],
              req_Operation = [] \<rparr>)
       \<and> (\<forall>r \<in> set (drop (length (ElementsAs (model_Secrets env))) (requestSecrets env prev)).
              req_Operation r = ''delete'')"
proof (intro conjI allI impI ballI)
  assume "secret_ID (ElementsAs (model_Secrets env) ! i) = Int64Null
            \<or> secret_ID (ElementsAs (model_Secrets env) ! i) = Int64Unknown"
  then show "requestSecrets env prev ! i =
            \<lparr> req_ID = 0,
              req_Name = ValueString (secret_Name (ElementsAs (model_Secrets env) ! i)),
              req_Type = ValueString (secret_Type (ElementsAs (model_Secrets env) ! i)),
              req_Secret = ValueString (secret_Value (ElementsAs (model_Secrets env) ! i)),
              req_Operation = ''create'' \<rparr>"
    using assms by (simp only: requestSecrets_nth secretRequest_create)
next
  fix k
  assume "secret_ID (ElementsAs (model_Secrets env) ! i) = Int64Value k"
    and "Int64Value k \<notin> secret_ID ` set (ElementsAs (model_Secrets prev))"
  then show "requestSecrets env prev ! i =
            \<lparr> req_ID = k,
              req_Name = ValueString (secret_Name (ElementsAs (model_Secrets env) ! i)),
              req_Type = ValueString (secret_Type (ElementsAs (model_Secrets env) ! i)),
              req_Secret = [],
              req_Operation = [] \<rparr>"
    using assms by (simp add: requestSecrets_nth secretRequest_not_found Secret_None_iff)
next
  fix r
  assume "r \<in> set (drop (length (ElementsAs (model_Secrets env))) (requestSecrets env prev))"
  then show "req_Operation r = ''delete''"
    unfolding requestSecrets_drop by (auto simp: deleteRequest_is_delete)
qed

theorem create_only_without_identity_witness:
  "requestSecrets
     (emptyModel \<lparr> model_Secrets := ListValue
        [\<lparr> secret_ID = Int64Unknown, secret_Name = StringValue ''A'',
           secret_Type = StringValue ''env'', secret_Value = StringValue ''x'' \<rparr>,
         \<lparr> secret_ID = Int64Value 7, secret_Name = StringValue ''B'',
           secret_Type = StringValue ''var'', secret_Value = StringValue ''y'' \<rparr>] \<rparr>)
     (emptyModel \<lparr> model_Secrets := ListValue
        [\<lparr> secret_ID = Int64Value 9, secret_Name = StringValue ''C'',
           secret_Type = StringValue ''file'', secret_Value = StringValue ''z'' \<rparr>] \<rparr>) =
     [\<lparr> req_ID = 0, req_Name = ''A'', req_Type = ''env'', req_Secret = ''x'',
        req_Operation = ''create'' \<rparr>,
      \<lparr> req_ID = 7, req_Name = ''B'', req_Type = ''var'', req_Secret = [],
        req_Operation = [] \<rparr>,
      \<lparr> req_ID = 9, req_Name = [], req_Type = ''file'', req_Secret = [],
        req_Operation = ''delete'' \<rparr>]"
  using create_only_without_identity
    [of 0 "emptyModel \<lparr> model_Secrets := ListValue
        [\<lparr> secret_ID = Int64Unknown, secret_Name = StringValue ''A'',
           secret_Type = StringValue ''env'', secret_Value = StringValue ''x'' \<rparr>,
         \<lparr> secret_ID = Int64Value 7, secret_Name = StringValue ''B'',
           secret_Type = StringValue ''var'', secret_Value = StringValue ''y'' \<rparr>] \<rparr>"
        "emptyModel \<lparr> model_Secrets := ListValue
        [\<lparr> secret_ID = Int64Value 9, secret_Name = StringValue ''C'',
           secret_Type = StringValue ''file'', secret_Value = StringValue ''z'' \<rparr>] \<rparr>"]
    create_only_without_identity
    [of 1 "emptyModel \<lparr> model_Secrets := ListValue
        [\<lparr> secret_ID = Int64Unknown, secret_Name = StringValue ''A'',
           secret_Type = StringValue ''env'', secret_Value = StringValue ''x'' \<rparr>,
         \<lparr> secret_ID = Int64Value 7, secret_Name = StringValue ''B'',
           secret_Type = StringValue ''var'', secret_Value = StringValue ''y'' \<rparr>] \<rparr>"
        "emptyModel \<lparr> model_Secrets := ListValue
        [\<lparr> secret_ID = Int64Value 9, secret_Name = StringValue ''C'',
           secret_Type = StringValue ''file'', secret_Value = StringValue ''z'' \<rparr>] \<rparr>"]
  by (simp add: requestSecrets_eq deleteRequest_def)

subsection \<open>Unchanged secrets\<close>

text \<open>
  A desired list diffed against itself: the unchanged secret is still sent, without
  operation, so the list of entries is not empty.
\<close>

theorem unchanged_secret_still_emitted_counterexample:
  "requestSecrets
     (emptyModel \<lparr> model_Secrets := ListValue
        [\<lparr> secret_ID = Int64Value 1, secret_Name = StringValue ''A'',
           secret_Type = StringValue ''env'', secret_Value = StringValue ''x'' \<rparr>] \<rparr>)
     (emptyModel \<lparr> model_Secrets := ListValue
        [\<lparr> secret_ID = Int64Value 1, secret_Name = StringValue ''A'',
           secret_Type = StringValue ''env'', secret_Value = StringValue ''x'' \<rparr>] \<rparr>) =
     [\<lparr> req_ID = 1, req_Name = ''A'', req_Type = ''env'', req_Secret = [],
        req_Operation = [] \<rparr>]
   \<and> requestSecrets
     (emptyModel \<lparr> model_Secrets := ListValue
        [\<lparr> secret_ID = Int64Value 1, secret_Name = StringValue ''A'',
           secret_Type = StringValue ''env'', secret_Value = StringValue ''x'' \<rparr>] \<rparr>)
     (emptyModel \<lparr> model_Secrets := ListValue
        [\<lparr> secret_ID = Int64Value 1, secret_Name = StringValue ''A'',
           secret_Type = StringValue ''env'', secret_Value = StringValue ''x'' \<rparr>] \<rparr>) \<noteq> []"
  by (simp add: requestSecrets_eq secretRequest_def Secret_def)

text \<open>
  C2, as the code has it. When every desired secret has a known identity and the previous
  secret found for that identity has the same name, kind and value, the request holds, in
  order, one entry per desired secret carrying identity, name and kind with an empty
  operation and no value, followed by one delete per previous secret whose identity is
  absent from the desired list: no create and no update. When moreover every previous
  identity occurs in the desired list (as for a list diffed against itself), the request
  is exactly those entries without operation.
\<close>

theorem unchanged_secrets_carry_no_operation:
  assumes "\<forall>d \<in> set (ElementsAs (model_Secrets env)). \<exists>k p.
             secret_ID d = Int64Value k \<and> Secret prev (Int64Value k) = Some p \<and>
             secret_Name p = secret_Name d \<and> secret_Type p = secret_Type d \<and>
             secret_Value p = secret_Value d"
  shows "requestSecrets env prev =
     map (\<lambda>d. \<lparr> req_ID = ValueInt64 (secret_ID d), req_Name = ValueString (secret_Name d),
                 req_Type = ValueString (secret_Type d), req_Secret = [],
                 req_Operation = [] \<rparr>)
       (ElementsAs (model_Secrets env)) @
     map (\<lambda>p. \<lparr> req_ID = ValueInt64 (secret_ID p), req_Name = [],
                 req_Type = ValueString (secret_Type p), req_Secret = [],
                 req_Operation = ''delete'' \<rparr>)
       (filter (\<lambda>p. secret_ID p \<notin> secret_ID ` set (ElementsAs (model_Secrets env)))
          (ElementsAs (model_Secrets prev)))
   \<and> (secret_ID ` set (ElementsAs (model_Secrets prev))
          \<subseteq> secret_ID ` set (ElementsAs (model_Secrets env)) \<longrightarrow>
        requestSecrets env prev =
          map (\<lambda>d. \<lparr> req_ID = ValueInt64 (secret_ID d), req_Name = ValueString (secret_Name d),
                      req_Type = ValueString (secret_Type d), req_Secret = [],
                      req_Operation = [] \<rparr>)
            (ElementsAs (model_Secrets env)))"
proof -
  have entry: "secretRequest prev d =
      \<lparr> req_ID = ValueInt64 (secret_ID d), req_Name = ValueString (secret_Name d),
        req_Type = ValueString (secret_Type d), req_Secret = [], req_Operation = [] \<rparr>"
    if "d \<in> set (ElementsAs (model_Secrets env))" for d
  proof -
    from assms that obtain k p where
      "secret_ID d = Int64Value k" "Secret prev (Int64Value k) = Some p"
      "secret_Name p = secret_Name d" "secret_Type p = secret_Type d"
      "secret_Value p = secret_Value d"
      by blast
    then show ?thesis
      using secretRequest_unchanged [of d k prev p] by simp
  qed
  have shape: "deleteRequest = (\<lambda>p. \<lparr> req_ID = ValueInt64 (secret_ID p), req_Name = [],
                 req_Type = ValueString (secret_Type p), req_Secret = [],
                 req_Operation = ''delete'' \<rparr>)"
    by (rule ext) (simp add: deleteRequest_def)
  have first: "map (secretRequest prev) (ElementsAs (model_Secrets env)) =
     map (\<lambda>d. \<lparr> req_ID = ValueInt64 (secret_ID d), req_Name = ValueString (secret_Name d),
                 req_Type = ValueString (secret_Type d), req_Secret = [],
                 req_Operation = [] \<rparr>)
       (ElementsAs (model_Secrets env))"
    by (rule map_cong) (simp_all add: entry)
  have none_missing: "filter (\<lambda>p. secret_ID p \<notin> secret_ID ` set (ElementsAs (model_Secrets env)))
          (ElementsAs (model_Secrets prev)) = []"
    if "secret_ID ` set (ElementsAs (model_Secrets prev))
          \<subseteq> secret_ID ` set (ElementsAs (model_Secrets env))"
    using that by (auto simp: filter_empty_conv)
  show ?thesis
    unfolding requestSecrets_eq first shape using none_missing by simp
qed

theorem unchanged_secrets_carry_no_operation_witness:
  "requestSecrets
     (emptyModel \<lparr> model_Secrets := ListValue
        [\<lparr> secret_ID = Int64Value 1, secret_Name = StringValue ''A'',
           secret_Type = StringValue ''env'', secret_Value = StringValue ''x'' \<rparr>,
         \<lparr> secret_ID = Int64Value 2, secret_Name = StringValue ''B'',
           secret_Type = StringValue ''var'', secret_Value = StringValue ''y'' \<rparr>] \<rparr>)
     (emptyModel \<lparr> model_Secrets := ListValue
        [\<lparr> secret_ID = Int64Value 1, secret_Name = StringValue ''A'',
           secret_Type = StringValue ''env'', secret_Value = StringValue ''x'' \<rparr>,
         \<lparr> secret_ID = Int64Value 2, secret_Name = StringValue ''B'',
           secret_Type = StringValue ''var'', secret_Value = StringValue ''y'' \<rparr>] \<rparr>) =
     [\<lparr> req_ID = 1, req_Name = ''A'', req_Type = ''env'', req_Secret = [], req_Operation = [] \<rparr>,
      \<lparr> req_ID = 2, req_Name = ''B'', req_Type = ''var'', req_Secret = [], req_Operation = [] \<rparr>]"
  using unchanged_secrets_carry_no_operation
    [of "emptyModel \<lparr> model_Secrets := ListValue
        [\<lparr> secret_ID = Int64Value 1, secret_Name = StringValue ''A'',
           secret_Type = StringValue ''env'', secret_Value = StringValue ''x'' \<rparr>,
         \<lparr> secret_ID = Int64Value 2, secret_Name = StringValue ''B'',
           secret_Type = StringValue ''var'', secret_Value = StringValue ''y'' \<rparr>] \<rparr>"
        "emptyModel \<lparr> model_Secrets := ListValue
        [\<lparr> secret_ID = Int64Value 1, secret_Name = StringValue ''A'',
           secret_Type = StringValue ''env'', secret_Value = StringValue ''x'' \<rparr>,
         \<lparr> secret_ID = Int64Value 2, secret_Name = StringValue ''B'',
           secret_Type = StringValue ''var'', secret_Value = StringValue ''y'' \<rparr>] \<rparr>"]
  by (simp add: Secret_def)

subsection \<open>Updates\<close>

text \<open>
  C1 claims that an update carries the identity plus only the fields that changed. What
  the code sends for a desired secret whose identity is found in the previous model and
  whose name, kind or value differs from the secret found: one update with the identity,
  with the value only when the value changed, and with the name and the kind of the
  desired secret whether or not they changed (both are set when the entry is first built).
\<close>

theorem update_carries_unchanged_name_and_type:
  assumes "i < length (ElementsAs (model_Secrets env))"
    and "secret_ID (ElementsAs (model_Secrets env) ! i) = Int64Value k"
    and "Secret prev (Int64Value k) = Some p"
    and "secret_Name (ElementsAs (model_Secrets env) ! i) \<noteq> secret_Name p
         \<or> secret_Type (ElementsAs (model_Secrets env) ! i) \<noteq> secret_Type p
         \<or> secret_Value (ElementsAs (model_Secrets env) ! i) \<noteq> secret_Value p"
  shows "requestSecrets env prev ! i =
     \<lparr> req_ID = k,
       req_Name = ValueString (secret_Name (ElementsAs (model_Secrets env) ! i)),
       req_Type = ValueString (secret_Type (ElementsAs (model_Secrets env) ! i)),
       req_Secret =
         (if secret_Value (ElementsAs (model_Secrets env) ! i) \<noteq> secret_Value p
          then ValueString (secret_Value (ElementsAs (model_Secrets env) ! i)) else []),
       req_Operation = ''update'' \<rparr>"
  using assms by (simp only: requestSecrets_nth secretRequest_update)

theorem update_carries_unchanged_name_and_type_witness:
  "requestSecrets
     (emptyModel \<lparr> model_Secrets := ListValue
        [\<lparr> secret_ID = Int64Value 1, secret_Name = StringValue ''A'',
           secret_Type = StringValue ''env'', secret_Value = StringValue ''new'' \<rparr>] \<rparr>)
     (emptyModel \<lparr> model_Secrets := ListValue
        [\<lparr> secret_ID = Int64Value 1, secret_Name = StringValue ''A'',
           secret_Type = StringValue ''env'', secret_Value = StringValue ''old'' \<rparr>] \<rparr>) ! 0 =
     \<lparr> req_ID = 1, req_Name = ''A'', req_Type = ''env'', req_Secret = ''new'',
       req_Operation = ''update'' \<rparr>"
  using update_carries_unchanged_name_and_type
    [of 0
        "emptyModel \<lparr> model_Secrets := ListValue
           [\<lparr> secret_ID = Int64Value 1, secret_Name = StringValue ''A'',
              secret_Type = StringValue ''env'', secret_Value = StringValue ''new'' \<rparr>] \<rparr>"
        1
        "emptyModel \<lparr> model_Secrets := ListValue
           [\<lparr> secret_ID = Int64Value 1, secret_Name = StringValue ''A'',
              secret_Type = StringValue ''env'', secret_Value = StringValue ''old'' \<rparr>] \<rparr>"
        "\<lparr> secret_ID = Int64Value 1, secret_Name = StringValue ''A'',
           secret_Type = StringValue ''env'', secret_Value = StringValue ''old'' \<rparr>"]
  by (simp add: Secret_def)

section \<open>The response merger\<close>

subsection \<open>Sorting, the loop and the lookups\<close>

lemma responseSecrets_loop_map:
  "responseSecrets_loop prev xs acc = acc @ map (modelSecret prev) xs"
  by (induction xs arbitrary: acc) simp_all

text \<open>
  What the library's contract gives for \<^verbatim>\<open>ByEnvironmentID\<close>: since \<^verbatim>\<open>Less\<close> compares the
  \<^verbatim>\<open>ID\<close> fields, a slice sorted by it has its identities in ascending order.
\<close>

lemma sort_Sort_contract_sorted:
  assumes "sort_Sort_contract a b"
  shows "sorted (map es_ID b)"
proof -
  have "map es_ID b ! i \<le> map es_ID b ! j" if "i < j" and "j < length (map es_ID b)" for i j
  proof -
    from that have "j < length b" and "i < length b" by simp_all
    moreover from assms that \<open>j < length b\<close> have "\<not> Less b j i"
      by (simp add: sort_Sort_contract_def)
    ultimately show ?thesis
      by (simp add: Less_def)
  qed
  then show ?thesis
    by (simp only: sorted_iff_nth_mono_less) blast
qed

lemma sort_Sort_contract_mset: "sort_Sort_contract a b \<Longrightarrow> mset b = mset a"
  by (simp add: sort_Sort_contract_def)

lemma sort_Sort_contract_ids:
  assumes "sort_Sort_contract a b"
  shows "map es_ID b = sort (map es_ID a)"
proof -
  have "mset (map es_ID b) = mset (map es_ID a)"
    using assms by (simp add: sort_Sort_contract_mset)
  then show ?thesis
    using sort_Sort_contract_sorted [OF assms]
    by (metis properties_for_sort)
qed

lemma sort_Sort_contract_Nil_iff: "sort_Sort_contract a b \<Longrightarrow> b = [] \<longleftrightarrow> a = []"
  by (metis mset_zero_iff sort_Sort_contract_mset)

text \<open>
  The contract excludes no response: a sort by \<^verbatim>\<open>ID\<close> meets it on every slice.
\<close>

lemma sort_Sort_contract_met: "sort_Sort_contract a (sort_key es_ID a)"
proof -
  let ?b = "sort_key es_ID a"
  have "\<not> Less ?b j i" if "i < j" and "j < length ?b" for i j
  proof -
    have "sorted (map es_ID ?b)" by simp
    moreover have "i \<le> j" and "j < length (map es_ID ?b)"
      using that by simp_all
    ultimately have "map es_ID ?b ! i \<le> map es_ID ?b ! j"
      by (rule sorted_nth_mono)
    moreover have "i < length ?b"
      using that by simp
    ultimately have "es_ID (?b ! i) \<le> es_ID (?b ! j)"
      using that(2) by (simp only: nth_map)
    then show ?thesis
      by (simp add: Less_def)
  qed
  then show ?thesis
    by (simp add: sort_Sort_contract_def)
qed

lemma mergedSecrets_nonempty:
  "sort_Sort_contract (env_Secrets environment) (sort_Sort (env_Secrets environment)) \<Longrightarrow>
   env_Secrets environment \<noteq> [] \<Longrightarrow>
   mergedSecrets sort_Sort environment prev =
     ListValue (map (modelSecret prev) (sort_Sort (env_Secrets environment)))"
  by (simp add: mergedSecrets_def responseSecrets_loop_map sort_Sort_contract_Nil_iff)

lemma mergedSecrets_empty:
  assumes "sort_Sort_contract (env_Secrets environment) (sort_Sort (env_Secrets environment))"
    and "env_Secrets environment = []"
  shows "mergedSecrets sort_Sort environment prev =
     (case model_Secrets prev of ListValue ps \<Rightarrow> ListValue ps | _ \<Rightarrow> ListNull)"
proof -
  have "sort_Sort (env_Secrets environment) = []"
    using assms by (simp only: sort_Sort_contract_Nil_iff)
  then show ?thesis
    by (cases "model_Secrets prev") (simp_all add: mergedSecrets_def)
qed

lemma unmarshalField_ok:
  "decoded \<noteq> UnmarshalNil \<Longrightarrow>
   unmarshalField decoded prevField =
     Inr (let m = (case decoded of UnmarshalMap m \<Rightarrow> m | _ \<Rightarrow> Mapping.empty)
          in if Mapping.is_empty m \<and> prevField = None then None else Some m)"
  by (cases decoded) (simp_all add: unmarshalField_def)

lemma unmarshalField_nil: "unmarshalField UnmarshalNil prevField = Inl NilPointerDereference"
  by (simp add: unmarshalField_def)

lemma convert_returns:
  assumes "unmarshal (env_JSON environment) \<noteq> UnmarshalNil"
    and "unmarshal (env_Env environment) \<noteq> UnmarshalNil"
  shows "\<exists>variables env.
     unmarshalField (unmarshal (env_JSON environment)) (model_Variables prev) = Inr variables \<and>
     unmarshalField (unmarshal (env_Env environment)) (model_Environment prev) = Inr env \<and>
     convertEnvironmentResponseToProjectEnvironmentModel unmarshal sort_Sort environment prev =
       Inr \<lparr> model_ID = Int64Value (env_ID environment),
             model_ProjectID = Int64Value (env_ProjectID environment),
             model_Name = StringValue (env_Name environment),
             model_Variables = variables,
             model_Environment = env,
             model_Secrets = mergedSecrets sort_Sort environment prev \<rparr>"
  using assms
  by (simp add: convertEnvironmentResponseToProjectEnvironmentModel_def unmarshalField_ok)

lemma Secret_find:
  "Secret model i = find (\<lambda>p. secret_ID p = i) (ElementsAs (model_Secrets model))"
proof -
  have "Secret_loop xs i = find (\<lambda>p. secret_ID p = i) xs" for xs
    by (induction xs) simp_all
  then show ?thesis by (simp add: Secret_eq_loop)
qed

lemma SecretValue_find:
  "SecretValue model name varType =
     (case find (\<lambda>p. secret_Name p = StringValue name \<and> secret_Type p = StringValue varType)
             (ElementsAs (model_Secrets model)) of
        Some p \<Rightarrow> secret_Value p
      | None \<Rightarrow> StringValue [])"
proof -
  have "SecretValue_loop xs name varType =
     (case find (\<lambda>p. secret_Name p = StringValue name \<and> secret_Type p = StringValue varType) xs of
        Some p \<Rightarrow> secret_Value p
      | None \<Rightarrow> StringValue [])" for xs
    by (induction xs) simp_all
  then show ?thesis
    by (cases "model_Secrets model") (simp_all add: SecretValue_def)
qed

subsection \<open>Secret values\<close>

text \<open>
  C4. The server's response never carries a secret's value. For every secret of a
  non-empty response, the merged secret has the response's identity, name and kind, and
  its value is that of the first previous secret with the same identity; otherwise that
  of the first previous secret with the same name and kind; otherwise the empty string.
  The witness evaluates the two round trips of the spec: the previous secret
  \<^verbatim>\<open>{id:1, name:"A", value:"x"}\<close> gives its value to the response's secret 1 by identity,
  and the previous secret \<^verbatim>\<open>{id:none, name:"A", value:"x"}\<close> gives its value to the
  response's secret 5 by name and kind.
\<close>

theorem merged_value_from_previous:
  assumes "unmarshal (env_JSON environment) \<noteq> UnmarshalNil"
    and "unmarshal (env_Env environment) \<noteq> UnmarshalNil"
    and "sort_Sort_contract (env_Secrets environment) (sort_Sort (env_Secrets environment))"
    and "env_Secrets environment \<noteq> []"
  shows "\<exists>m. convertEnvironmentResponseToProjectEnvironmentModel unmarshal sort_Sort
            environment prev = Inr m \<and>
     model_Secrets m =
       ListValue
         (map (\<lambda>s. \<lparr> secret_ID = Int64Value (es_ID s),
                      secret_Name = StringValue (es_Name s),
                      secret_Type = StringValue (es_Type s),
                      secret_Value =
                        (case find (\<lambda>p. secret_ID p = Int64Value (es_ID s))
                                (ElementsAs (model_Secrets prev)) of
                           Some p \<Rightarrow> secret_Value p
                         | None \<Rightarrow>
                             (case find (\<lambda>p. secret_Name p = StringValue (es_Name s) \<and>
                                             secret_Type p = StringValue (es_Type s))
                                     (ElementsAs (model_Secrets prev)) of
                                Some p \<Rightarrow> secret_Value p
                              | None \<Rightarrow> StringValue [])) \<rparr>)
            (sort_Sort (env_Secrets environment)))"
proof -
  have entry: "modelSecret prev = (\<lambda>s. \<lparr> secret_ID = Int64Value (es_ID s),
                      secret_Name = StringValue (es_Name s),
                      secret_Type = StringValue (es_Type s),
                      secret_Value =
                        (case find (\<lambda>p. secret_ID p = Int64Value (es_ID s))
                                (ElementsAs (model_Secrets prev)) of
                           Some p \<Rightarrow> secret_Value p
                         | None \<Rightarrow>
                             (case find (\<lambda>p. secret_Name p = StringValue (es_Name s) \<and>
                                             secret_Type p = StringValue (es_Type s))
                                     (ElementsAs (model_Secrets prev)) of
                                Some p \<Rightarrow> secret_Value p
                              | None \<Rightarrow> StringValue [])) \<rparr>)"
    by (rule ext) (simp add: modelSecret_def Secret_find SecretValue_find split: option.splits)
  from convert_returns [OF assms(1,2), of prev] obtain m where
    "convertEnvironmentResponseToProjectEnvironmentModel unmarshal sort_Sort environment prev =
       Inr m"
    "model_Secrets m = mergedSecrets sort_Sort environment prev"
    by force
  then show ?thesis
    using assms(3,4) by (simp add: mergedSecrets_nonempty entry)
qed

theorem merged_value_from_previous_witness:
  "(\<exists>m. convertEnvironmentResponseToProjectEnvironmentModel (\<lambda>text. UnmarshalMap Mapping.empty)
          (sort_key es_ID)
          \<lparr> env_ID = 3, env_ProjectID = 2, env_Name = ''e'', env_JSON = ''{}'', env_Env = ''{}'',
            env_Secrets = [\<lparr> es_ID = 1, es_Name = ''A'', es_Type = ''env'' \<rparr>] \<rparr>
          (emptyModel \<lparr> model_Secrets := ListValue
             [\<lparr> secret_ID = Int64Value 1, secret_Name = StringValue ''A'',
                secret_Type = StringValue ''env'', secret_Value = StringValue ''x'' \<rparr>] \<rparr>) = Inr m \<and>
        model_Secrets m = ListValue
          [\<lparr> secret_ID = Int64Value 1, secret_Name = StringValue ''A'',
             secret_Type = StringValue ''env'', secret_Value = StringValue ''x'' \<rparr>])
   \<and> (\<exists>m. convertEnvironmentResponseToProjectEnvironmentModel (\<lambda>text. UnmarshalMap Mapping.empty)
          (sort_key es_ID)
          \<lparr> env_ID = 3, env_ProjectID = 2, env_Name = ''e'', env_JSON = ''{}'', env_Env = ''{}'',
            env_Secrets = [\<lparr> es_ID = 5, es_Name = ''A'', es_Type = ''env'' \<rparr>] \<rparr>
          (emptyModel \<lparr> model_Secrets := ListValue
             [\<lparr> secret_ID = Int64Null, secret_Name = StringValue ''A'',
                secret_Type = StringValue ''env'', secret_Value = StringValue ''x'' \<rparr>] \<rparr>) = Inr m \<and>
        model_Secrets m = ListValue
          [\<lparr> secret_ID = Int64Value 5, secret_Name = StringValue ''A'',
             secret_Type = StringValue ''env'', secret_Value = StringValue ''x'' \<rparr>])"
  using merged_value_from_previous
    [where unmarshal = "\<lambda>text. UnmarshalMap Mapping.empty"
        and sort_Sort = "sort_key es_ID"
        and environment = "\<lparr> env_ID = 3, env_ProjectID = 2, env_Name = ''e'', env_JSON = ''{}'', env_Env = ''{}'',
            env_Secrets = [\<lparr> es_ID = 1, es_Name = ''A'', es_Type = ''env'' \<rparr>] \<rparr>"
        and prev = "emptyModel \<lparr> model_Secrets := ListValue
             [\<lparr> secret_ID = Int64Value 1, secret_Name = StringValue ''A'',
                secret_Type = StringValue ''env'', secret_Value = StringValue ''x'' \<rparr>] \<rparr>",
      OF _ _ sort_Sort_contract_met]
    merged_value_from_previous
    [where unmarshal = "\<lambda>text. UnmarshalMap Mapping.empty"
        and sort_Sort = "sort_key es_ID"
        and environment = "\<lparr> env_ID = 3, env_ProjectID = 2, env_Name = ''e'', env_JSON = ''{}'', env_Env = ''{}'',
            env_Secrets = [\<lparr> es_ID = 5, es_Name = ''A'', es_Type = ''env'' \<rparr>] \<rparr>"
        and prev = "emptyModel \<lparr> model_Secrets := ListValue
             [\<lparr> secret_ID = Int64Null, secret_Name = StringValue ''A'',
                secret_Type = StringValue ''env'', secret_Value = StringValue ''x'' \<rparr>] \<rparr>",
      OF _ _ sort_Sort_contract_met]
  by simp

subsection \<open>Ordering\<close>

text \<open>
  C10. Whatever the order in which a non-empty response lists its secrets, and whichever
  sort meets the library's contract for \<^verbatim>\<open>ByEnvironmentID\<close>, the merged secret list is in
  ascending order of identity: its identities are the response's identities sorted, and
  its entries (identity, name, kind) are those of the response. The order follows from
  \<^verbatim>\<open>Less\<close> comparing the \<^verbatim>\<open>ID\<close> fields: the sorted slice has no later entry \<^verbatim>\<open>Less\<close> than
  an earlier one.
\<close>

theorem merged_secrets_sorted_by_identity:
  assumes "unmarshal (env_JSON environment) \<noteq> UnmarshalNil"
    and "unmarshal (env_Env environment) \<noteq> UnmarshalNil"
    and "sort_Sort_contract (env_Secrets environment) (sort_Sort (env_Secrets environment))"
    and "env_Secrets environment \<noteq> []"
  shows "\<exists>m secrets.
     convertEnvironmentResponseToProjectEnvironmentModel unmarshal sort_Sort
       environment prev = Inr m \<and>
     model_Secrets m = ListValue secrets \<and>
     sorted (map (\<lambda>s. ValueInt64 (secret_ID s)) secrets) \<and>
     map secret_ID secrets = map Int64Value (sort (map es_ID (env_Secrets environment))) \<and>
     mset (map (\<lambda>s. (secret_ID s, secret_Name s, secret_Type s)) secrets) =
       mset (map (\<lambda>s. (Int64Value (es_ID s), StringValue (es_Name s), StringValue (es_Type s)))
               (env_Secrets environment))"
proof -
  let ?secrets = "map (modelSecret prev) (sort_Sort (env_Secrets environment))"
  from convert_returns [OF assms(1,2), of prev] obtain m where
    m: "convertEnvironmentResponseToProjectEnvironmentModel unmarshal sort_Sort environment prev =
       Inr m"
    "model_Secrets m = mergedSecrets sort_Sort environment prev"
    by force
  have list: "model_Secrets m = ListValue ?secrets"
    using m(2) assms(3,4) by (simp add: mergedSecrets_nonempty)
  have ids: "map (\<lambda>s. ValueInt64 (secret_ID s)) ?secrets = map es_ID (sort_Sort (env_Secrets environment))"
    by (simp add: modelSecret_def comp_def)
  have sorted: "sorted (map (\<lambda>s. ValueInt64 (secret_ID s)) ?secrets)"
    unfolding ids by (rule sort_Sort_contract_sorted [OF assms(3)])
  have "map secret_ID ?secrets = map Int64Value (map es_ID (sort_Sort (env_Secrets environment)))"
    by (simp add: modelSecret_def comp_def)
  then have same_ids: "map secret_ID ?secrets =
      map Int64Value (sort (map es_ID (env_Secrets environment)))"
    by (simp only: sort_Sort_contract_ids [OF assms(3)])
  have "map (\<lambda>s. (secret_ID s, secret_Name s, secret_Type s)) ?secrets =
      map (\<lambda>s. (Int64Value (es_ID s), StringValue (es_Name s), StringValue (es_Type s)))
        (sort_Sort (env_Secrets environment))"
    by (simp add: modelSecret_def comp_def)
  then have entries: "mset (map (\<lambda>s. (secret_ID s, secret_Name s, secret_Type s)) ?secrets) =
       mset (map (\<lambda>s. (Int64Value (es_ID s), StringValue (es_Name s), StringValue (es_Type s)))
               (env_Secrets environment))"
    by (simp only: mset_map sort_Sort_contract_mset [OF assms(3)])
  from m(1) list sorted same_ids entries show ?thesis by blast
qed

theorem merged_secrets_sorted_by_identity_witness:
  "\<exists>m. convertEnvironmentResponseToProjectEnvironmentModel (\<lambda>text. UnmarshalMap Mapping.empty)
          (sort_key es_ID)
         \<lparr> env_ID = 3, env_ProjectID = 2, env_Name = ''e'', env_JSON = ''{}'', env_Env = ''{}'',
           env_Secrets = [\<lparr> es_ID = 5, es_Name = ''A'', es_Type = ''env'' \<rparr>,
                          \<lparr> es_ID = 2, es_Name = ''B'', es_Type = ''var'' \<rparr>] \<rparr>
         emptyModel = Inr m \<and>
       model_Secrets m = ListValue
         [\<lparr> secret_ID = Int64Value 2, secret_Name = StringValue ''B'',
            secret_Type = StringValue ''var'', secret_Value = StringValue [] \<rparr>,
          \<lparr> secret_ID = Int64Value 5, secret_Name = StringValue ''A'',
            secret_Type = StringValue ''env'', secret_Value = StringValue [] \<rparr>]"
  using merged_secrets_sorted_by_identity
    [where unmarshal = "\<lambda>text. UnmarshalMap Mapping.empty"
        and sort_Sort = "sort_key es_ID"
        and environment = "\<lparr> env_ID = 3, env_ProjectID = 2, env_Name = ''e'', env_JSON = ''{}'', env_Env = ''{}'',
           env_Secrets = [\<lparr> es_ID = 5, es_Name = ''A'', es_Type = ''env'' \<rparr>,
                          \<lparr> es_ID = 2, es_Name = ''B'', es_Type = ''var'' \<rparr>] \<rparr>"
        and prev = emptyModel,
      OF _ _ sort_Sort_contract_met]
  by (simp add: convertEnvironmentResponseToProjectEnvironmentModel_def unmarshalField_def
      mergedSecrets_def modelSecret_def Secret_def SecretValue_def emptyModel_def)

subsection \<open>An empty response\<close>

text \<open>
  C8. When the response has no secret, so that the list built from it is empty, and the
  previous model's secrets are a known list, the merged model's secrets are that list,
  unchanged.
\<close>

theorem empty_response_reuses_previous_secrets:
  assumes "unmarshal (env_JSON environment) \<noteq> UnmarshalNil"
    and "unmarshal (env_Env environment) \<noteq> UnmarshalNil"
    and "sort_Sort_contract (env_Secrets environment) (sort_Sort (env_Secrets environment))"
    and "env_Secrets environment = []"
    and "model_Secrets prev = ListValue previous"
  shows "\<exists>m. convertEnvironmentResponseToProjectEnvironmentModel unmarshal sort_Sort
            environment prev = Inr m \<and>
     model_Secrets m = ListValue previous"
proof -
  from convert_returns [OF assms(1,2), of prev] obtain m where
    "convertEnvironmentResponseToProjectEnvironmentModel unmarshal sort_Sort environment prev =
       Inr m"
    "model_Secrets m = mergedSecrets sort_Sort environment prev"
    by force
  then show ?thesis
    using assms(3,4,5) by (simp add: mergedSecrets_empty)
qed

theorem empty_response_reuses_previous_secrets_witness:
  "\<exists>m. convertEnvironmentResponseToProjectEnvironmentModel (\<lambda>text. UnmarshalMap Mapping.empty)
          (sort_key es_ID)
         \<lparr> env_ID = 3, env_ProjectID = 2, env_Name = ''e'', env_JSON = ''{}'', env_Env = ''{}'',
           env_Secrets = [] \<rparr>
         (emptyModel \<lparr> model_Secrets := ListValue
            [\<lparr> secret_ID = Int64Value 4, secret_Name = StringValue ''A'',
               secret_Type = StringValue ''env'', secret_Value = StringValue ''x'' \<rparr>] \<rparr>) = Inr m \<and>
       model_Secrets m = ListValue
         [\<lparr> secret_ID = Int64Value 4, secret_Name = StringValue ''A'',
            secret_Type = StringValue ''env'', secret_Value = StringValue ''x'' \<rparr>]"
  using empty_response_reuses_previous_secrets
    [where unmarshal = "\<lambda>text. UnmarshalMap Mapping.empty"
        and sort_Sort = "sort_key es_ID"
        and environment = "\<lparr> env_ID = 3, env_ProjectID = 2, env_Name = ''e'', env_JSON = ''{}'', env_Env = ''{}'',
           env_Secrets = [] \<rparr>"
        and prev = "emptyModel \<lparr> model_Secrets := ListValue
            [\<lparr> secret_ID = Int64Value 4, secret_Name = StringValue ''A'',
               secret_Type = StringValue ''env'', secret_Value = StringValue ''x'' \<rparr>] \<rparr>"
        and previous = "[\<lparr> secret_ID = Int64Value 4, secret_Name = StringValue ''A'',
            secret_Type = StringValue ''env'', secret_Value = StringValue ''x'' \<rparr>]",
      OF _ _ sort_Sort_contract_met]
  by simp

subsection \<open>The map fields\<close>

text \<open>
  C5. Unless a decoded document is \<^verbatim>\<open>null\<close>, the merger returns a model and no error. A
  field whose text fails to decode is handled as the empty map. A field whose decoded map
  is empty is nil when the previous model's field is nil, and stays the empty map when
  the previous model's field is set (also to the empty map); a non-empty decoded map is
  kept. This holds for \<^verbatim>\<open>Variables\<close> and for \<^verbatim>\<open>Environment\<close>.
\<close>

theorem decoded_map_normalised:
  assumes "unmarshal (env_JSON environment) \<noteq> UnmarshalNil"
    and "unmarshal (env_Env environment) \<noteq> UnmarshalNil"
  shows "\<exists>m. convertEnvironmentResponseToProjectEnvironmentModel unmarshal sort_Sort
            environment prev = Inr m \<and>
     (unmarshal (env_JSON environment) = UnmarshalError \<longrightarrow>
        model_Variables m =
          (if model_Variables prev = None then None else Some Mapping.empty)) \<and>
     (\<forall>decoded. unmarshal (env_JSON environment) = UnmarshalMap decoded \<longrightarrow>
        model_Variables m =
          (if Mapping.is_empty decoded \<and> model_Variables prev = None then None
           else Some decoded)) \<and>
     (unmarshal (env_Env environment) = UnmarshalError \<longrightarrow>
        model_Environment m =
          (if model_Environment prev = None then None else Some Mapping.empty)) \<and>
     (\<forall>decoded. unmarshal (env_Env environment) = UnmarshalMap decoded \<longrightarrow>
        model_Environment m =
          (if Mapping.is_empty decoded \<and> model_Environment prev = None then None
           else Some decoded))"
proof -
  from convert_returns [OF assms, of prev] obtain variables env where
    v: "unmarshalField (unmarshal (env_JSON environment)) (model_Variables prev) = Inr variables"
    and e: "unmarshalField (unmarshal (env_Env environment)) (model_Environment prev) = Inr env"
    and c: "convertEnvironmentResponseToProjectEnvironmentModel unmarshal sort_Sort environment prev =
       Inr \<lparr> model_ID = Int64Value (env_ID environment),
             model_ProjectID = Int64Value (env_ProjectID environment),
             model_Name = StringValue (env_Name environment),
             model_Variables = variables,
             model_Environment = env,
             model_Secrets = mergedSecrets sort_Sort environment prev \<rparr>"
    by blast
  have field: "(decoded = UnmarshalError \<longrightarrow>
        field = (if prevField = None then None else Some Mapping.empty)) \<and>
     (\<forall>d. decoded = UnmarshalMap d \<longrightarrow>
        field = (if Mapping.is_empty d \<and> prevField = None then None else Some d))"
    if "unmarshalField decoded prevField = Inr field" for decoded prevField field
    using that by (cases decoded) (auto simp: unmarshalField_def)
  from field [OF v] field [OF e] c show ?thesis by simp
qed

theorem decoded_map_normalised_witness:
  "\<exists>m. convertEnvironmentResponseToProjectEnvironmentModel
         (\<lambda>text. if text = ''{}'' then UnmarshalMap Mapping.empty else UnmarshalError)
          (sort_key es_ID)
         \<lparr> env_ID = 3, env_ProjectID = 2, env_Name = ''e'', env_JSON = ''{}'', env_Env = ''{'',
           env_Secrets = [] \<rparr>
         (emptyModel \<lparr> model_Environment := Some Mapping.empty \<rparr>) = Inr m \<and>
       model_Variables m = None \<and> model_Environment m = Some Mapping.empty"
  using decoded_map_normalised
    [where unmarshal = "\<lambda>text. if text = ''{}'' then UnmarshalMap Mapping.empty else UnmarshalError"
        and sort_Sort = "sort_key es_ID"
        and environment = "\<lparr> env_ID = 3, env_ProjectID = 2, env_Name = ''e'', env_JSON = ''{}'', env_Env = ''{'',
           env_Secrets = [] \<rparr>"
        and prev = "emptyModel \<lparr> model_Environment := Some Mapping.empty \<rparr>"]
  by (simp add: emptyModel_def)

text \<open>
  C6 claims that the merger returns a model for every response whose map fields are valid
  JSON documents, the document \<^verbatim>\<open>null\<close> included. The decoder reports no error for
  \<^verbatim>\<open>null\<close> and leaves the pointer nil, and the emptiness check that follows dereferences it:
  with \<^verbatim>\<open>null\<close> in either field the merger panics.
\<close>

theorem null_document_panics:
  assumes "unmarshal ''null'' = UnmarshalNil"
    and "env_JSON environment = ''null'' \<or> env_Env environment = ''null''"
  shows "convertEnvironmentResponseToProjectEnvironmentModel unmarshal sort_Sort environment prev =
     Inl NilPointerDereference"
proof (cases "env_JSON environment = ''null''")
  case True
  with assms(1) show ?thesis
    by (simp add: convertEnvironmentResponseToProjectEnvironmentModel_def unmarshalField_nil)
next
  case False
  with assms have "unmarshal (env_Env environment) = UnmarshalNil" by auto
  moreover have "p = NilPointerDereference" for p
    by (cases p) simp
  ultimately show ?thesis
    by (simp add: convertEnvironmentResponseToProjectEnvironmentModel_def unmarshalField_nil
        split: sum.splits)
qed

theorem null_document_panics_witness:
  "convertEnvironmentResponseToProjectEnvironmentModel
     (\<lambda>text. if text = ''null'' then UnmarshalNil
             else if text = ''{}'' then UnmarshalMap Mapping.empty else UnmarshalError)
          (sort_key es_ID)
     \<lparr> env_ID = 3, env_ProjectID = 2, env_Name = ''e'', env_JSON = ''null'', env_Env = ''{}'',
       env_Secrets = [] \<rparr>
     emptyModel = Inl NilPointerDereference"
  using null_document_panics
    [where unmarshal = "\<lambda>text. if text = ''null'' then UnmarshalNil
             else if text = ''{}'' then UnmarshalMap Mapping.empty else UnmarshalError"
        and sort_Sort = "sort_key es_ID"
        and environment = "\<lparr> env_ID = 3, env_ProjectID = 2, env_Name = ''e'', env_JSON = ''null'', env_Env = ''{}'',
           env_Secrets = [] \<rparr>"
        and prev = emptyModel]
  by simp

section \<open>Parsing a composite identifier\<close>

lemma parseDigits_Some_iff:
  "parseDigits token acc = Some v \<longleftrightarrow>
     (\<forall>c \<in> set token. isDigit c) \<and> v = foldl (\<lambda>n c. 10 * n + digitValue c) acc token"
  by (induction token arbitrary: acc) auto

lemma parseValue_Some_iff:
  "parseValue token = Some v \<longleftrightarrow>
     token \<noteq> [] \<and> (\<forall>c \<in> set token. isDigit c) \<and>
     v = foldl (\<lambda>n c. 10 * n + digitValue c) 0 token"
  by (simp add: parseValue_def parseDigits_Some_iff)

lemma parseValue_None_iff:
  "parseValue token = None \<longleftrightarrow> \<not> (token \<noteq> [] \<and> (\<forall>c \<in> set token. isDigit c))"
  using parseValue_Some_iff [of token] by (cases "parseValue token") auto

lemma parseTokens_result:
  assumes "length labels = length tokens"
  shows "(if \<forall>t \<in> set tokens. t \<noteq> [] \<and> (\<forall>c \<in> set t. isDigit c)
          then parseTokens labels tokens pattern =
                 Inr (zip labels (map (foldl (\<lambda>n c. 10 * n + digitValue c) 0) tokens))
          else \<exists>t \<in> set tokens. parseTokens labels tokens pattern =
                 Inl (MalformedIdentifier t pattern))"
  using assms
proof (induction labels tokens rule: list_induct2)
  case Nil
  then show ?case by simp
next
  case (Cons label labels token tokens)
  show ?case
  proof (cases "parseValue token")
    case None
    then show ?thesis
      using parseValue_None_iff [of token] by auto
  next
    case (Some v)
    then have tok: "token \<noteq> []" "\<forall>c \<in> set token. isDigit c"
      "v = foldl (\<lambda>n c. 10 * n + digitValue c) 0 token"
      using parseValue_Some_iff [of token v] by simp_all
    show ?thesis
    proof (cases "\<forall>t \<in> set tokens. t \<noteq> [] \<and> (\<forall>c \<in> set t. isDigit c)")
      case True
      with Cons.IH Some tok show ?thesis by simp
    next
      case False
      with Cons.IH obtain t where "t \<in> set tokens"
        "parseTokens labels tokens pattern = Inl (MalformedIdentifier t pattern)"
        by auto
      with Some False show ?thesis by auto
    qed
  qed
qed

text \<open>
  C9. The parser succeeds exactly when the raw text splits on \<^verbatim>\<open>/\<close> into as many tokens
  as there are expected labels and every token is a non-empty string of decimal digits;
  it then returns, for each label in order, the number its token denotes. Otherwise it
  fails with \<^verbatim>\<open>MalformedIdentifier\<close> carrying the expected pattern. So \<^verbatim>\<open>12/34\<close> with the
  labels project, environment gives project 12 and environment 34, while \<^verbatim>\<open>abc/34\<close> and
  \<^verbatim>\<open>12\<close> are malformed.
\<close>

theorem parseImportFields_succeeds_iff_wellformed:
  "(if length (split (CHR ''/'') raw) = length labels \<and>
       (\<forall>t \<in> set (split (CHR ''/'') raw). t \<noteq> [] \<and> (\<forall>c \<in> set t. isDigit c))
    then parseImportFields raw labels =
           Inr (zip labels (map (foldl (\<lambda>n c. 10 * n + digitValue c) 0) (split (CHR ''/'') raw)))
    else \<exists>offending. parseImportFields raw labels =
           Inl (MalformedIdentifier offending (expectedPattern labels)))
   \<and> parseImportFields ''12/34'' [''project'', ''environment''] =
       Inr [(''project'', 12), (''environment'', 34)]
   \<and> parseImportFields ''abc/34'' [''project'', ''environment''] =
       Inl (MalformedIdentifier ''abc'' ''project/environment'')
   \<and> parseImportFields ''12'' [''project'', ''environment''] =
       Inl (MalformedIdentifier ''12'' ''project/environment'')"
proof -
  have general: "(if length (split (CHR ''/'') raw) = length labels \<and>
       (\<forall>t \<in> set (split (CHR ''/'') raw). t \<noteq> [] \<and> (\<forall>c \<in> set t. isDigit c))
    then parseImportFields raw labels =
           Inr (zip labels (map (foldl (\<lambda>n c. 10 * n + digitValue c) 0) (split (CHR ''/'') raw)))
    else \<exists>offending. parseImportFields raw labels =
           Inl (MalformedIdentifier offending (expectedPattern labels)))"
  proof (cases "length (split (CHR ''/'') raw) = length labels")
    case False
    then show ?thesis by (auto simp: parseImportFields_def)
  next
    case True
    then have len: "length labels = length (split (CHR ''/'') raw)" by simp
    show ?thesis
    proof (cases "\<forall>t \<in> set (split (CHR ''/'') raw). t \<noteq> [] \<and> (\<forall>c \<in> set t. isDigit c)")
      case wellformed: True
      with parseTokens_result [OF len, of "expectedPattern labels"]
      have "parseTokens labels (split (CHR ''/'') raw) (expectedPattern labels) =
          Inr (zip labels (map (foldl (\<lambda>n c. 10 * n + digitValue c) 0) (split (CHR ''/'') raw)))"
        by simp
      with True wellformed show ?thesis
        by (simp add: parseImportFields_def)
    next
      case malformed: False
      with parseTokens_result [OF len, of "expectedPattern labels"]
      obtain t where "parseTokens labels (split (CHR ''/'') raw) (expectedPattern labels) =
          Inl (MalformedIdentifier t (expectedPattern labels))"
        by (simp only: if_False) blast
      with True malformed show ?thesis
        by (simp add: parseImportFields_def)
    qed
  qed
  have ex1: "parseImportFields ''12/34'' [''project'', ''environment''] =
       Inr [(''project'', 12), (''environment'', 34)]"
    by (simp add: parseImportFields_def parseValue_def isDigit_def digitValue_def)
  have ex2: "parseImportFields ''abc/34'' [''project'', ''environment''] =
       Inl (MalformedIdentifier ''abc'' ''project/environment'')"
    by (simp add: parseImportFields_def parseValue_def isDigit_def digitValue_def)
  have ex3: "parseImportFields ''12'' [''project'', ''environment''] =
       Inl (MalformedIdentifier ''12'' ''project/environment'')"
    by (simp add: parseImportFields_def)
  from general ex1 ex2 ex3 show ?thesis by blast
qed

theorem parseImportFields_succeeds_iff_wellformed_witness:
  "parseImportFields ''7/0042'' [''project'', ''environment''] =
     Inr [(''project'', 7), (''environment'', 42)]
   \<and> (\<exists>offending. parseImportFields ''7/4x'' [''project'', ''environment''] =
         Inl (MalformedIdentifier offending ''project/environment''))"
  using parseImportFields_succeeds_iff_wellformed [of "''7/0042''" "[''project'', ''environment'']"]
    parseImportFields_succeeds_iff_wellformed [of "''7/4x''" "[''project'', ''environment'']"]
  by (simp add: isDigit_def digitValue_def)

end
